theory Spec2Isabelle
  imports Complex_Main "HOL-Library.Char_ord" "HOL-Library.List_Lexorder" "HOL-Library.Multiset"
begin

section \<open>Python primitives used by the sources\<close>

text \<open>
  The exceptions the modelled code can raise. A function that can raise returns
  \<open>error + 'a\<close>, with \<open>Inl\<close> carrying the exception.
\<close>

datatype error =
    ValueError
  | IndexError
  | TypeError
  | AttributeError
  | KeyError
  | RuntimeError
  | ZeroDivisionError
  | FileNotFoundError
  | OSError

text \<open>
  \<^verbatim>\<open>xs[i]\<close> on a list (or a string): a negative index counts from the end, an index out
  of range raises IndexError.
\<close>

definition py_index :: "'a list \<Rightarrow> int \<Rightarrow> error + 'a" where
  "py_index xs i =
     (if 0 \<le> i \<and> i < int (length xs) then Inr (xs ! nat i)
      else if i < 0 \<and> - int (length xs) \<le> i then Inr (xs ! nat (int (length xs) + i))
      else Inl IndexError)"

text \<open>
  \<^verbatim>\<open>min(xs, key=f)\<close>: the first element is the candidate, a later element replaces it
  only when its key is strictly smaller; an empty argument raises ValueError.
\<close>

fun py_min_from :: "('a \<Rightarrow> int) \<Rightarrow> 'a \<Rightarrow> 'a list \<Rightarrow> 'a" where
  "py_min_from key best [] = best"
| "py_min_from key best (x # xs) =
     (if key x < key best then py_min_from key x xs else py_min_from key best xs)"

definition py_min_key :: "('a \<Rightarrow> int) \<Rightarrow> 'a list \<Rightarrow> error + 'a" where
  "py_min_key key xs =
     (case xs of [] \<Rightarrow> Inl ValueError | x # rest \<Rightarrow> Inr (py_min_from key x rest))"

definition py_range :: "nat \<Rightarrow> int list" where
  "py_range n = map int [0..<n]"

section \<open>Rating normalisation: percent to stars\<close>

text \<open>
  \<^verbatim>\<open>_stars_from_percent\<close> of \<^verbatim>\<open>ratings.py\<close> (lines 5-13), on an integer percent.
  The key of the \<^verbatim>\<open>min\<close> is \<^verbatim>\<open>abs(cuts[i] - pct)\<close>; the index it reads is one of
  \<^verbatim>\<open>range(len(cuts))\<close>, and the model keeps the read fallible all the same.
\<close>

definition cut_distance :: "int list \<Rightarrow> int \<Rightarrow> int \<Rightarrow> int" where
  "cut_distance cuts pct i = (case py_index cuts i of Inr c \<Rightarrow> \<bar>c - pct\<bar> | Inl _ \<Rightarrow> 0)"

definition stars_from_percent :: "int \<Rightarrow> error + int" where
  "stars_from_percent pct =
     (if pct \<le> 0 then Inr 0
      else if pct \<ge> 99 then Inr 5
      else
        let cuts = [1, 25, 50, 75, 99 :: int];
            stars = [1, 2, 3, 4, 5 :: int]
        in case py_min_key (cut_distance cuts pct) (py_range (length cuts)) of
             Inl e \<Rightarrow> Inl e
           | Inr closest \<Rightarrow> py_index stars closest)"

text \<open>
  \<^verbatim>\<open>_stars_from_percent\<close> of \<^verbatim>\<open>select_images.py\<close> (lines 65-80): the same mapping on an
  optional percent. \<^verbatim>\<open>int(pct)\<close> is the identity on an integer, so the
  \<^verbatim>\<open>except\<close> branch is not reached from this type.
\<close>

definition stars_from_percent_opt :: "int option \<Rightarrow> error + int option" where
  "stars_from_percent_opt pct0 =
     (case pct0 of
        None \<Rightarrow> Inr None
      | Some pct \<Rightarrow>
          if pct \<le> 0 then Inr (Some 0)
          else if pct \<ge> 99 then Inr (Some 5)
          else
            let cuts = [1, 25, 50, 75, 99 :: int];
                stars = [1, 2, 3, 4, 5 :: int]
            in (case py_min_key (cut_distance cuts pct) (py_range (length cuts)) of
                  Inl e \<Rightarrow> Inl e
                | Inr idx \<Rightarrow> map_sum id Some (py_index stars idx)))"

section \<open>Nearest-rank percentile\<close>

text \<open>
  \<^verbatim>\<open>percentile_nearest_rank\<close> of \<^verbatim>\<open>select_images.py\<close> (lines 162-173). The percentile
  \<open>q\<close> is a real number: the product \<^verbatim>\<open>q * n\<close> and its ceiling are taken exactly, where
  the source computes them in binary floating point.
\<close>

definition percentile_nearest_rank :: "int list \<Rightarrow> real \<Rightarrow> error + int" where
  "percentile_nearest_rank values q0 =
     (if values = [] then Inl ValueError
      else
        let q = min 1 (max 0 q0);
            vals = sort values;
            n = length vals;
            rank = max 1 \<lceil>q * real n\<rceil>
        in py_index vals (rank - 1))"

section \<open>Python values\<close>

text \<open>
  The values the modelled functions receive: what a JSON document decodes to, and tuples.
  A scalar is what \<^verbatim>\<open>isinstance(x, (str, int, float, bool, type(None)))\<close> accepts. A float
  is carried by its \<^verbatim>\<open>repr\<close> (the text \<^verbatim>\<open>str\<close> gives for it); no float arithmetic is
  done on these values. A string is a list of characters with code points 0 to 255.
\<close>

datatype scalar =
    SNone
  | SBool bool
  | SInt int
  | SFloat string
  | SStr string

datatype pyval =
    Scalar scalar
  | PList "pyval list"
  | PTuple "pyval list"
  | PDict "(string \<times> pyval) list"

abbreviation PNone :: pyval where "PNone \<equiv> Scalar SNone"
abbreviation PBool :: "bool \<Rightarrow> pyval" where "PBool b \<equiv> Scalar (SBool b)"
abbreviation PInt :: "int \<Rightarrow> pyval" where "PInt i \<equiv> Scalar (SInt i)"
abbreviation PFloat :: "string \<Rightarrow> pyval" where "PFloat r \<equiv> Scalar (SFloat r)"
abbreviation PStr :: "string \<Rightarrow> pyval" where "PStr s \<equiv> Scalar (SStr s)"

text \<open>
  A dict with string keys is an association list in insertion order. \<open>dict_set\<close> is
  \<^verbatim>\<open>d[k] = v\<close>: an existing key keeps its position, a new key goes last. \<open>dict_get\<close> is
  \<^verbatim>\<open>d.get(k)\<close> with \<open>None\<close> for a missing key.
\<close>

type_synonym pydict = "(string \<times> pyval) list"

definition dict_get :: "('k \<times> 'v) list \<Rightarrow> 'k \<Rightarrow> 'v option" where
  "dict_get d k = map_of d k"

fun dict_set :: "('k \<times> 'v) list \<Rightarrow> 'k \<Rightarrow> 'v \<Rightarrow> ('k \<times> 'v) list" where
  "dict_set [] k v = [(k, v)]"
| "dict_set ((k', v') # d) k v = (if k' = k then (k, v) # d else (k', v') # dict_set d k v)"

definition dict_keys :: "('k \<times> 'v) list \<Rightarrow> 'k list" where
  "dict_keys d = map fst d"

definition dict_values :: "('k \<times> 'v) list \<Rightarrow> 'v list" where
  "dict_values d = map snd d"

text \<open>
  \<^verbatim>\<open>str\<close> of an integer (decimal digits, a minus sign for a negative one) and of the other
  scalars.
\<close>

definition digit_char :: "nat \<Rightarrow> char" where
  "digit_char d = ''0123456789abcdef'' ! d"

function str_nat :: "nat \<Rightarrow> string" where
  "str_nat n = (if n < 10 then [digit_char n] else str_nat (n div 10) @ [digit_char (n mod 10)])"
  by pat_completeness auto
termination
  by (relation "measure id") auto

declare str_nat.simps [simp del]

definition str_int :: "int \<Rightarrow> string" where
  "str_int i = (if i < 0 then CHR ''-'' # str_nat (nat (- i)) else str_nat (nat i))"

fun py_str :: "scalar \<Rightarrow> string" where
  "py_str SNone = ''None''"
| "py_str (SBool b) = (if b then ''True'' else ''False'')"
| "py_str (SInt i) = str_int i"
| "py_str (SFloat r) = r"
| "py_str (SStr s) = s"

text \<open>
  \<^verbatim>\<open>sep.join(xs)\<close> on strings.
\<close>

fun py_join :: "string \<Rightarrow> string list \<Rightarrow> string" where
  "py_join sep [] = []"
| "py_join sep [x] = x"
| "py_join sep (x # y # ys) = x @ sep @ py_join sep (y # ys)"

text \<open>
  Truth value of a Python value, as \<^verbatim>\<open>if x\<close> and \<^verbatim>\<open>not x\<close> test it.
\<close>

fun py_truthy :: "pyval \<Rightarrow> bool" where
  "py_truthy (Scalar SNone) = False"
| "py_truthy (Scalar (SBool b)) = b"
| "py_truthy (Scalar (SInt i)) = (i \<noteq> 0)"
| "py_truthy (Scalar (SFloat r)) = (r \<noteq> ''0.0'' \<and> r \<noteq> ''-0.0'')"
| "py_truthy (Scalar (SStr s)) = (s \<noteq> [])"
| "py_truthy (PList xs) = (xs \<noteq> [])"
| "py_truthy (PTuple xs) = (xs \<noteq> [])"
| "py_truthy (PDict d) = (d \<noteq> [])"

text \<open>
  \<^verbatim>\<open>str.isspace\<close> on one character of the range 0 to 255 (tab to carriage return, the
  separators 28 to 31, space, NEL and the no-break space), \<^verbatim>\<open>str.strip()\<close>, and
  \<^verbatim>\<open>str.lower()\<close> on that range.
\<close>

definition py_isspace :: "char \<Rightarrow> bool" where
  "py_isspace c =
     (let n = (of_char c :: nat)
      in (9 \<le> n \<and> n \<le> 13) \<or> (28 \<le> n \<and> n \<le> 32) \<or> n = 133 \<or> n = 160)"

definition py_strip :: "string \<Rightarrow> string" where
  "py_strip s = rev (dropWhile py_isspace (rev (dropWhile py_isspace s)))"

definition py_lower_char :: "char \<Rightarrow> char" where
  "py_lower_char c =
     (let n = (of_char c :: nat)
      in if (65 \<le> n \<and> n \<le> 90) \<or> (192 \<le> n \<and> n \<le> 214) \<or> (216 \<le> n \<and> n \<le> 222)
         then char_of (n + 32) else c)"

definition py_lower :: "string \<Rightarrow> string" where
  "py_lower s = map py_lower_char s"

text \<open>
  \<^verbatim>\<open>s.find(sub)\<close>: the lowest index where \<open>sub\<close> starts, or -1. \<^verbatim>\<open>s.replace(old, new)\<close>
  for a non-empty \<open>old\<close> (the only use in the sources): left to right, without
  overlaps.
\<close>

fun py_find :: "string \<Rightarrow> string \<Rightarrow> int" where
  "py_find sub [] = (if sub = [] then 0 else - 1)"
| "py_find sub (c # cs) =
     (if take (length sub) (c # cs) = sub then 0
      else (let r = py_find sub cs in if r < 0 then - 1 else r + 1))"

fun py_replace :: "string \<Rightarrow> string \<Rightarrow> string \<Rightarrow> string" where
  "py_replace old new [] = []"
| "py_replace old new (c # cs) =
     (if old \<noteq> [] \<and> take (length old) (c # cs) = old
      then new @ py_replace old new (drop (length old) (c # cs))
      else c # py_replace old new cs)"

section \<open>The CSV writer (write_metadata.py)\<close>

text \<open>
  \<^verbatim>\<open>json.dumps(value, ensure_ascii=False)\<close>: strings are quoted, with the quote, the
  backslash and the control characters escaped; items are separated by \<^verbatim>\<open>", "\<close> and a key
  from its value by \<^verbatim>\<open>": "\<close>; a tuple is written as a list.
\<close>

definition json_escape_char :: "char \<Rightarrow> string" where
  "json_escape_char c =
     (if c = CHR 0x22 then [CHR 0x5C, CHR 0x22]
      else if c = CHR 0x5C then [CHR 0x5C, CHR 0x5C]
      else if c = CHR 0x0A then [CHR 0x5C, CHR ''n'']
      else if c = CHR 0x0D then [CHR 0x5C, CHR ''r'']
      else if c = CHR 0x09 then [CHR 0x5C, CHR ''t'']
      else if c = CHR 0x08 then [CHR 0x5C, CHR ''b'']
      else if c = CHR 0x0C then [CHR 0x5C, CHR ''f'']
      else if (of_char c :: nat) < 32
        then [CHR 0x5C, CHR ''u'', CHR ''0'', CHR ''0'',
              digit_char (of_char c div 16), digit_char (of_char c mod 16)]
      else [c])"

definition json_string :: "string \<Rightarrow> string" where
  "json_string s = [CHR 0x22] @ concat (map json_escape_char s) @ [CHR 0x22]"

fun json_scalar :: "scalar \<Rightarrow> string" where
  "json_scalar SNone = ''null''"
| "json_scalar (SBool b) = (if b then ''true'' else ''false'')"
| "json_scalar (SInt i) = str_int i"
| "json_scalar (SFloat r) =
     (if r = ''nan'' then ''NaN'' else if r = ''inf'' then ''Infinity''
      else if r = ''-inf'' then ''-Infinity'' else r)"
| "json_scalar (SStr s) = json_string s"

fun json_dumps :: "pyval \<Rightarrow> string" where
  "json_dumps (Scalar x) = json_scalar x"
| "json_dumps (PList xs) = ''['' @ py_join '', '' (map json_dumps xs) @ '']''"
| "json_dumps (PTuple xs) = ''['' @ py_join '', '' (map json_dumps xs) @ '']''"
| "json_dumps (PDict kvs) =
     ''{'' @ py_join '', '' (map (\<lambda>kv. json_string (fst kv) @ '': '' @ json_dumps (snd kv)) kvs)
       @ ''}''"

text \<open>
  \<^verbatim>\<open>_normalize_cell\<close> (lines 9-25). \<open>scalars_of\<close> reads the elements of a list that has
  passed the \<^verbatim>\<open>all(isinstance(...))\<close> test.
\<close>

fun is_scalar :: "pyval \<Rightarrow> bool" where
  "is_scalar (Scalar x) = True"
| "is_scalar (PList xs) = False"
| "is_scalar (PTuple xs) = False"
| "is_scalar (PDict d) = False"

fun scalars_of :: "pyval list \<Rightarrow> scalar list" where
  "scalars_of [] = []"
| "scalars_of (Scalar x # vs) = x # scalars_of vs"
| "scalars_of (v # vs) = scalars_of vs"

definition joined_cell :: "pyval list \<Rightarrow> string" where
  "joined_cell xs = py_join ''; '' (map (\<lambda>x. if x = SNone then [] else py_str x) (scalars_of xs))"

fun normalize_cell :: "pyval \<Rightarrow> string" where
  "normalize_cell (Scalar x) = (if x = SNone then [] else py_str x)"
| "normalize_cell (PList xs) =
     (if list_all is_scalar xs then joined_cell xs else json_dumps (PList xs))"
| "normalize_cell (PTuple xs) =
     (if list_all is_scalar xs then joined_cell xs else json_dumps (PTuple xs))"
| "normalize_cell (PDict d) = json_dumps (PDict d)"

text \<open>
  \<^verbatim>\<open>_read_existing_csv\<close> (lines 28-40). The input file is given by what the source asks
  of it: whether it exists, its size, and what \<^verbatim>\<open>csv.DictReader\<close> yields on it, the field
  names (\<open>None\<close> when there is no first row) and the rows. A row maps a column to its
  cell; the reader gives the cell \<open>None\<close> to a column that a short line does not reach.
\<close>

type_synonym csv_row = "string \<rightharpoonup> string option"

record input_csv =
  ic_exists :: bool
  ic_size :: nat
  ic_fieldnames :: "string list option"
  ic_rows :: "csv_row list"

definition read_existing_csv :: "input_csv \<Rightarrow> csv_row list \<times> string list" where
  "read_existing_csv f =
     (if ic_exists f \<and> ic_size f > 0
      then (ic_rows f, (case ic_fieldnames f of None \<Rightarrow> [] | Some h \<Rightarrow> h))
      else ([], []))"

text \<open>
  \<^verbatim>\<open>_compute_headers\<close> (lines 43-60): the state of the two loops is the list
  \<^verbatim>\<open>headers\<close> and the set \<^verbatim>\<open>seen\<close>.
\<close>

fun add_unseen :: "string \<Rightarrow> string list \<times> string set \<Rightarrow> string list \<times> string set" where
  "add_unseen k (headers, seen) =
     (if k \<notin> seen then (headers @ [k], insert k seen) else (headers, seen))"

definition add_record_keys ::
  "pydict \<Rightarrow> string list \<times> string set \<Rightarrow> string list \<times> string set" where
  "add_record_keys rec st = fold add_unseen (dict_keys rec) st"

definition compute_headers :: "string list \<Rightarrow> pydict list \<Rightarrow> bool \<Rightarrow> string list" where
  "compute_headers existing_headers new_records add_missing_columns =
     (let headers = existing_headers
      in if add_missing_columns
         then fst (fold add_record_keys new_records (headers, set headers))
         else headers)"

text \<open>
  \<^verbatim>\<open>append_records_to_csv\<close> (lines 63-141). \<open>build_row\<close> is one turn of the loop over
  the records (lines 111-122), which may also append to \<^verbatim>\<open>headers\<close>; \<open>pad\<close> is the local
  function of that name; \<open>dict_to_list\<close> is what \<^verbatim>\<open>csv.DictWriter\<close> writes for a row with
  \<^verbatim>\<open>extrasaction="ignore"\<close>: the cells of the field names in order, the empty string for a
  missing or \<open>None\<close> cell. The result is the written file: its header row and its rows.
\<close>

definition blank_row :: "string list \<Rightarrow> csv_row" where
  "blank_row headers = (\<lambda>k. if k \<in> set headers then Some (Some []) else None)"

fun fill_cell :: "bool \<Rightarrow> string \<times> pyval \<Rightarrow> string list \<times> csv_row \<Rightarrow> string list \<times> csv_row" where
  "fill_cell add_missing_columns (k, v) (headers, row) =
     (if k \<notin> set headers
      then (if add_missing_columns
            then (headers @ [k], row(k \<mapsto> Some (normalize_cell v)))
            else (headers, row))
      else (headers, row(k \<mapsto> Some (normalize_cell v))))"

fun build_row ::
  "bool \<Rightarrow> pydict \<Rightarrow> string list \<times> csv_row list \<Rightarrow> string list \<times> csv_row list" where
  "build_row add_missing_columns rec (headers, new_rows) =
     (case fold (fill_cell add_missing_columns) rec (headers, blank_row headers) of
        (headers', row) \<Rightarrow> (headers', new_rows @ [row]))"

definition pad :: "string list \<Rightarrow> csv_row \<Rightarrow> csv_row" where
  "pad headers row =
     (\<lambda>k. if k \<in> set headers
          then Some (case row k of None \<Rightarrow> Some [] | Some v \<Rightarrow> v)
          else None)"

record csv_out =
  out_fieldnames :: "string list"
  out_rows :: "string list list"

definition dict_to_list :: "string list \<Rightarrow> csv_row \<Rightarrow> string list" where
  "dict_to_list fieldnames row =
     map (\<lambda>h. case row h of None \<Rightarrow> [] | Some None \<Rightarrow> [] | Some (Some s) \<Rightarrow> s) fieldnames"

definition append_records_to_csv :: "input_csv \<Rightarrow> pydict list \<Rightarrow> bool \<Rightarrow> bool \<Rightarrow> csv_out" where
  "append_records_to_csv input_csv records add_missing_columns keep_existing_rows =
     (case read_existing_csv input_csv of (existing_rows, existing_headers) \<Rightarrow>
      let headers0 = compute_headers existing_headers records add_missing_columns;
          headers1 = (if headers0 = []
                      then fst (fold add_record_keys records ([], {}))
                      else headers0)
      in (case fold (build_row add_missing_columns) records (headers1, []) of
            (headers, new_rows0) \<Rightarrow>
              let existing_rows' = (if add_missing_columns
                                    then map (pad headers) existing_rows else existing_rows);
                  new_rows = (if add_missing_columns
                              then map (pad headers) new_rows0 else new_rows0);
                  final_rows = (if keep_existing_rows then existing_rows' else []) @ new_rows
              in \<lparr>out_fieldnames = headers,
                  out_rows = map (dict_to_list headers) final_rows\<rparr>))"

text \<open>
  For the statements: the elements of a list, each once, in the order of their first
  occurrence, and the header row that lines 97-107 settle on.
\<close>

definition first_seen :: "'a list \<Rightarrow> 'a list" where
  "first_seen xs = rev (remdups (rev xs))"


definition final_headers :: "string list \<Rightarrow> pydict list \<Rightarrow> bool \<Rightarrow> string list" where
  "final_headers H R add =
     (if compute_headers H R add = [] then first_seen (concat (map dict_keys R))
      else compute_headers H R add)"


section \<open>The condenser and the augmenter (parse_exif.py)\<close>

text \<open>
  \<^verbatim>\<open>_first_present\<close> (lines 324-329) and \<^verbatim>\<open>_extract_nested\<close> (lines 331-361).
  \<open>child_values\<close> is the comprehension of line 354, on a list that has passed the
  \<^verbatim>\<open>all(isinstance(x, dict))\<close> test.
\<close>

fun first_present :: "pydict \<Rightarrow> string list \<Rightarrow> pyval" where
  "first_present meta [] = PNone"
| "first_present meta (k # ks) =
     (case dict_get meta k of
        None \<Rightarrow> first_present meta ks
      | Some v \<Rightarrow> if v \<noteq> PNone then v else first_present meta ks)"

fun is_str :: "pyval \<Rightarrow> bool" where
  "is_str (Scalar (SStr s)) = True"
| "is_str v = False"

fun is_dict :: "pyval \<Rightarrow> bool" where
  "is_dict (PDict d) = True"
| "is_dict v = False"

fun child_values :: "string \<Rightarrow> pyval list \<Rightarrow> pyval list" where
  "child_values child_key [] = []"
| "child_values child_key (PDict d # xs) =
     (case dict_get d child_key of
        None \<Rightarrow> child_values child_key xs
      | Some v \<Rightarrow> if v \<noteq> PNone then v # child_values child_key xs
                  else child_values child_key xs)"
| "child_values child_key (x # xs) = child_values child_key xs"

definition extract_nested :: "pydict \<Rightarrow> string list \<Rightarrow> string \<Rightarrow> pyval" where
  "extract_nested meta parent_keys child_key =
     (case first_present meta parent_keys of
        Scalar x \<Rightarrow> Scalar x
      | PList xs \<Rightarrow>
          if list_all is_str xs then PList xs
          else if list_all is_dict xs then
            (case child_values child_key xs of
               [] \<Rightarrow> PNone
             | [v] \<Rightarrow> v
             | vals \<Rightarrow> PList vals)
          else PList xs
      | PTuple xs \<Rightarrow> PTuple xs
      | PDict d \<Rightarrow> (case dict_get d child_key of None \<Rightarrow> PNone | Some v \<Rightarrow> v))"

text \<open>
  The title (lines 382-388). \<open>strip_trailing\<close> is the loop
  \<^verbatim>\<open>while t[-1] == " ": t = t[:len(t) - 1]\<close>, on a string (the elements are characters)
  or on a list or tuple (the elements are values): the read \<^verbatim>\<open>t[-1]\<close> raises IndexError
  on an empty sequence. \<open>collapse_spaces\<close> is the loop of lines 387-388; it ends because
  every turn that finds two spaces in a row shortens the string.
\<close>

function strip_trailing :: "'a \<Rightarrow> 'a list \<Rightarrow> error + 'a list" where
  "strip_trailing sp xs =
     (case py_index xs (- 1) of
        Inl e \<Rightarrow> Inl e
      | Inr c \<Rightarrow> if c = sp then strip_trailing sp (take (length xs - 1) xs) else Inr xs)"
  by pat_completeness auto
termination
  by (relation "measure (\<lambda>(sp, xs). length xs)") (auto simp add: py_index_def split: if_splits)

declare strip_trailing.simps [simp del]

lemma take_eq_length_le:
  assumes "take (length old) s = old"
  shows "length old \<le> length s"
proof -
  have "length (take (length old) s) = length old" using assms by simp
  then show ?thesis by simp
qed

lemma py_replace_length_le:
  "length new \<le> length old \<Longrightarrow> length (py_replace old new s) \<le> length s"
proof (induction old new s rule: py_replace.induct)
  case (1 old new)
  then show ?case by simp
next
  case (2 old new c cs)
  show ?case
  proof (cases "old \<noteq> [] \<and> take (length old) (c # cs) = old")
    case True
    then have "length (py_replace old new (drop (length old) (c # cs)))
                 \<le> length (drop (length old) (c # cs))"
      using 2 by blast
    moreover have "length old \<le> length (c # cs)"
      using True by (intro take_eq_length_le) simp
    ultimately show ?thesis using True 2(3) by simp
  next
    case False
    then show ?thesis using 2 by auto
  qed
qed

lemma py_replace_shrinks:
  "length new < length old \<Longrightarrow> py_find old s \<noteq> - 1 \<Longrightarrow>
     length (py_replace old new s) < length s"
proof (induction old new s rule: py_replace.induct)
  case (1 old new)
  then show ?case by (cases old) auto
next
  case (2 old new c cs)
  show ?case
  proof (cases "old \<noteq> [] \<and> take (length old) (c # cs) = old")
    case True
    have "length (py_replace old new (drop (length old) (c # cs)))
            \<le> length (drop (length old) (c # cs))"
      using 2(3) by (intro py_replace_length_le) simp
    moreover have "length old \<le> length (c # cs)"
      using True by (intro take_eq_length_le) simp
    ultimately show ?thesis using True 2(3) by simp
  next
    case False
    have "old \<noteq> []" using 2(3) by auto
    then have "take (length old) (c # cs) \<noteq> old" using False by simp
    then have "py_find old cs \<noteq> - 1"
      using 2(4) by (auto simp add: Let_def split: if_splits)
    then have "length (py_replace old new cs) < length cs" using False 2 by blast
    then show ?thesis using False by auto
  qed
qed

function collapse_spaces :: "string \<Rightarrow> string" where
  "collapse_spaces s =
     (if py_find ''  '' s \<noteq> - 1 then collapse_spaces (py_replace ''  '' '' '' s) else s)"
  by pat_completeness auto
termination
  by (relation "measure length") (auto intro: py_replace_shrinks)

declare collapse_spaces.simps [simp del]

text \<open>
  The three steps on the title, by the type of the value found: on a string they succeed
  or raise IndexError; a list or a tuple passes the first loop (or raises IndexError) and
  then has no \<^verbatim>\<open>replace\<close>; a dict has no key \<^verbatim>\<open>-1\<close>; a number cannot be indexed.
\<close>

fun condense_title :: "pyval \<Rightarrow> error + pyval" where
  "condense_title (Scalar SNone) = Inr PNone"
| "condense_title (Scalar (SStr s)) =
     (case strip_trailing (CHR '' '') s of
        Inl e \<Rightarrow> Inl e
      | Inr s1 \<Rightarrow> Inr (PStr (collapse_spaces (py_replace [CHR 0x0A] '' '' s1))))"
| "condense_title (Scalar x) = Inl TypeError"
| "condense_title (PList xs) =
     (case strip_trailing (PStr '' '') xs of Inl e \<Rightarrow> Inl e | Inr xs1 \<Rightarrow> Inl AttributeError)"
| "condense_title (PTuple xs) =
     (case strip_trailing (PStr '' '') xs of Inl e \<Rightarrow> Inl e | Inr xs1 \<Rightarrow> Inl AttributeError)"
| "condense_title (PDict d) = Inl KeyError"

text \<open>
  The people field (lines 397-403). \<^verbatim>\<open>temp += " " + person\<close> needs a string
  \<^verbatim>\<open>person\<close>; on a string \<^verbatim>\<open>temp\<close> it concatenates, on a list \<^verbatim>\<open>temp\<close> it extends the
  list by the characters, and on any other \<^verbatim>\<open>temp\<close> it raises TypeError.
\<close>

fun append_person :: "pyval \<Rightarrow> error + pyval \<Rightarrow> error + pyval" where
  "append_person person (Inl e) = Inl e"
| "append_person (Scalar (SStr p)) (Inr (Scalar (SStr temp))) = Inr (PStr (temp @ '' '' @ p))"
| "append_person (Scalar (SStr p)) (Inr (PList temp)) =
     Inr (PList (temp @ map (\<lambda>c. PStr [c]) ('' '' @ p)))"
| "append_person person (Inr temp) = Inl TypeError"

fun condense_people :: "pyval \<Rightarrow> error + pyval" where
  "condense_people (PList xs) =
     (case py_index xs 0 of
        Inl e \<Rightarrow> Inl e
      | Inr temp \<Rightarrow> if length xs > 1 then fold append_person (drop 1 xs) (Inr temp) else Inr temp)"
| "condense_people v = Inr v"

text \<open>
  The location (lines 414-420): the truthy values of the four subfields, joined by
  \<^verbatim>\<open>", "\<close>; \<^verbatim>\<open>str.join\<close> raises TypeError on a piece that is not a string.
\<close>

definition location_pieces :: "pydict \<Rightarrow> pyval list" where
  "location_pieces loc =
     concat (map (\<lambda>k. case dict_get loc k of None \<Rightarrow> [] | Some v \<Rightarrow> if py_truthy v then [v] else [])
       [''Sublocation'', ''City'', ''ProvinceState'', ''CountryName''])"

fun strs_of :: "pyval list \<Rightarrow> string list" where
  "strs_of [] = []"
| "strs_of (Scalar (SStr s) # vs) = s # strs_of vs"
| "strs_of (v # vs) = strs_of vs"

fun condense_location :: "pyval \<Rightarrow> error + pyval" where
  "condense_location (PDict loc) =
     (let pieces = location_pieces loc
      in if pieces \<noteq> []
         then (if list_all is_str pieces then Inr (PStr (py_join '', '' (strs_of pieces)))
               else Inl TypeError)
         else Inr (PDict loc))"
| "condense_location v = Inr v"

text \<open>
  \<^verbatim>\<open>condense_metadata\<close> (lines 363-425). The result is the dict \<^verbatim>\<open>out\<close> with its keys
  in the order of their assignment; an exception of a step ends the call.
\<close>

definition condense_metadata :: "pydict \<Rightarrow> error + pydict" where
  "condense_metadata meta =
     (case condense_title (first_present meta
             [''XMP-dc:Description'', ''IFD0:ImageDescription'', ''Description'', ''ImageDescription'']) of
        Inl e \<Rightarrow> Inl e
      | Inr title \<Rightarrow>
     (case condense_people (first_present meta [''XMP-iptcExt:PersonInImage'']) of
        Inl e \<Rightarrow> Inl e
      | Inr people2 \<Rightarrow>
     (case condense_location (first_present meta [''XMP-iptcCore:Location'']) of
        Inl e \<Rightarrow> Inl e
      | Inr n_odd \<Rightarrow>
          Inr [(''title'', title),
               (''begin'', first_present meta [''EXIF:CreateDate'', ''CreateDate'', ''XMP-xmp:CreateDate'']),
               (''people_agent_header_1'',
                  first_present meta [''IPTC:By-line'', ''IFD0:Artist'', ''Creator'', ''Artist'']),
               (''people_agent_header_2'', people2),
               (''subject_1_term'',
                  extract_nested meta [''XMP-plus:ImageSupplier''] ''ImageSupplierName''),
               (''n_odd'', n_odd),
               (''n_abstract'', first_present meta [''XMP-photoshop:Headline''])])))"

text \<open>
  \<^verbatim>\<open>_non_null\<close> (lines 427-435).
\<close>

fun non_null :: "pyval \<Rightarrow> bool" where
  "non_null (Scalar SNone) = False"
| "non_null (Scalar (SStr s)) = (py_strip s \<noteq> [])"
| "non_null (Scalar x) = True"
| "non_null (PList xs) = (length xs > 0)"
| "non_null (PTuple xs) = (length xs > 0)"
| "non_null (PDict d) = (length d > 0)"

text \<open>
  \<^verbatim>\<open>augment_condensed_metadata\<close> (lines 437-516). The argument \<open>size_mb\<close> is the outcome
  of lines 473-475, which read the file system and compute in floating point: \<open>Inr\<close> of
  the rounded size, or \<open>Inl\<close> of the exception raised there. FileNotFoundError is caught
  and leaves the size \<open>None\<close>; any other exception ends the call. \<open>set_items\<close> is a run
  of assignments \<^verbatim>\<open>out[k] = v\<close>, \<open>set_items_if\<close> the same under an \<^verbatim>\<open>if\<close>.
\<close>

definition get_or_none :: "pydict \<Rightarrow> string \<Rightarrow> pyval" where
  "get_or_none d k = (case dict_get d k of None \<Rightarrow> PNone | Some v \<Rightarrow> v)"

definition set_items :: "pydict \<Rightarrow> (string \<times> pyval) list \<Rightarrow> pydict" where
  "set_items d kvs = fold (\<lambda>kv acc. dict_set acc (fst kv) (snd kv)) kvs d"

definition set_items_if :: "bool \<Rightarrow> pydict \<Rightarrow> (string \<times> pyval) list \<Rightarrow> pydict" where
  "set_items_if c d kvs = (if c then set_items d kvs else d)"

definition augment_condensed_metadata ::
  "error + pyval \<Rightarrow> pydict \<Rightarrow> pyval \<Rightarrow> error + pydict" where
  "augment_condensed_metadata size_mb condensed hierarchy =
     (let out0 = dict_set condensed ''hierarchy'' hierarchy
      in case (case size_mb of
                 Inr number \<Rightarrow> Inr (set_items out0 [(''number'', number), (''extent_type'', PStr ''MB'')])
               | Inl e \<Rightarrow> if e = FileNotFoundError
                          then Inr (set_items out0 [(''number'', PNone), (''extent_type'', PStr ''MB'')])
                          else Inl e) of
           Inl e \<Rightarrow> Inl e
         | Inr out1 \<Rightarrow>
             let out2 = set_items out1
                   [(''restrictions_flag'', PStr ''Yes''),
                    (''processing_note'', PStr
                       ''This picture was held in VandyVision, the digital asset management system called PhotoShelter.''),
                    (''portion'', PStr ''1''),
                    (''type_2'', PStr ''Item''),
                    (''p_acqinfo'', PStr ''Yes''),
                    (''n_acqinfo'', PStr ''PhotoShelter https://www.photoshelter.com'')];
                 out3 = set_items_if (non_null (get_or_none out2 ''begin'')) out2
                   [(''dates_label'', PStr ''creation''), (''date_type'', PStr ''single'')];
                 out4 = set_items_if (non_null (get_or_none out3 ''people_agent_header_1'')) out3
                   [(''people_agent_role_1'', PStr ''creator''),
                    (''people_agent_relator_1'', PStr ''photographer'')];
                 out5 = set_items_if (non_null (get_or_none out4 ''people_agent_header_2'')) out4
                   [(''people_agent_role_2'', PStr ''subject''),
                    (''people_agent_relator_2'', PStr ''associated name'')];
                 out6 = set_items_if (non_null (get_or_none out5 ''n_odd'')) out5
                   [(''p_odd'', PStr ''Yes''), (''l_odd'', PStr ''location'')];
                 out7 = set_items_if (non_null (get_or_none out6 ''subject_1_term'')) out6
                   [(''subject_1_type'', PStr ''topical''), (''subject_1_source'', PStr ''local sources'')]
             in Inr out7)"

text \<open>
  For the statements: the keys of a condensed record, and what it means that a pair of
  descriptor fields has been added to, or left out of, an augmented record.
\<close>

definition condensed_fields :: "string list" where
  "condensed_fields =
     [''title'', ''begin'', ''people_agent_header_1'', ''people_agent_header_2'',
      ''subject_1_term'', ''n_odd'', ''n_abstract'']"

definition group_added :: "pydict \<Rightarrow> bool \<Rightarrow> string \<times> pyval \<Rightarrow> string \<times> pyval \<Rightarrow> bool" where
  "group_added a present kv1 kv2 =
     (if present
      then dict_get a (fst kv1) = Some (snd kv1) \<and> dict_get a (fst kv2) = Some (snd kv2)
      else fst kv1 \<notin> set (dict_keys a) \<and> fst kv2 \<notin> set (dict_keys a))"

section \<open>The collection filter (select_images.py)\<close>

record RatingRecord =
  path :: string
  stars :: "int option"
  xmp_rating :: "int option"
  ms_rating :: "int option"
  ms_rating_percent :: "int option"

record FilterResult =
  selected :: "string list"
  cutoff_stars :: "int option"
  rated :: "RatingRecord list"
  unrated :: "RatingRecord list"
  stats :: "(string \<times> int) list"

text \<open>
  What the filter reads from outside the program, for a given root folder: whether the
  root is a directory; the entries of \<^verbatim>\<open>root.rglob("*")\<close> and of \<^verbatim>\<open>root.iterdir()\<close>, each
  with the answer of \<^verbatim>\<open>is_file()\<close>; whether \<^verbatim>\<open>exiftool\<close> is in the path; the decoded
  JSON rows ExifTool prints for a list of files, or the exception of the call; the
  builtin \<^verbatim>\<open>int\<close> on a string and on a float (\<open>None\<close> when it raises); and the order in
  which a set of paths is iterated. A path is the string \<^verbatim>\<open>str(p)\<close>.
\<close>

record environment =
  is_dir :: bool
  rglob :: "(string \<times> bool) list"
  iterdir :: "(string \<times> bool) list"
  exiftool_in_path :: bool
  exiftool_json :: "string list \<Rightarrow> error + pydict list"
  int_of_str :: "string \<Rightarrow> int option"
  int_of_float :: "string \<Rightarrow> int option"
  set_order :: "string list \<Rightarrow> string list"

text \<open>
  \<^verbatim>\<open>collect_files\<close> (lines 38-58). \<open>path_suffix\<close> is \<^verbatim>\<open>p.suffix\<close>: the last component
  from its last dot on, when that dot is neither its first nor its last character.
\<close>

definition path_name :: "string \<Rightarrow> string" where
  "path_name p = rev (takeWhile (\<lambda>c. c \<noteq> CHR ''/'') (rev p))"

definition path_suffix :: "string \<Rightarrow> string" where
  "path_suffix p =
     (let name = path_name p;
          tail = takeWhile (\<lambda>c. c \<noteq> CHR ''.'') (rev name)
      in if CHR ''.'' \<in> set name \<and> 0 < length tail \<and> length tail + 1 < length name
         then CHR ''.'' # rev tail else [])"

definition lstrip_dots :: "string \<Rightarrow> string" where
  "lstrip_dots s = dropWhile (\<lambda>c. c = CHR ''.'') s"

definition extension_allowed :: "string list \<Rightarrow> string \<Rightarrow> bool" where
  "extension_allowed extensions p =
     (lstrip_dots (py_lower (path_suffix p)) \<in> set (map (\<lambda>e. lstrip_dots (py_lower e)) extensions))"

definition collect_files :: "environment \<Rightarrow> bool \<Rightarrow> string list option \<Rightarrow> error + string list" where
  "collect_files env recursive extensions =
     (if \<not> is_dir env then Inl ValueError
      else
        let it = (if recursive then rglob env else iterdir env);
            files = map fst (filter snd it)
        in (case extensions of
              None \<Rightarrow> Inr files
            | Some exts \<Rightarrow>
                if exts \<noteq> [] then Inr (filter (extension_allowed exts) files) else Inr files))"

text \<open>
  \<^verbatim>\<open>_normalize_stars\<close> (lines 83-116), with its local \<^verbatim>\<open>_as_int\<close>, and
  \<^verbatim>\<open>read_ratings_with_exiftool\<close> (lines 119-155). \<open>add_rating_record\<close> is one turn of
  the loop over the rows; \<^verbatim>\<open>Path(src)\<close> raises TypeError on a truthy value that is not a
  string.
\<close>

fun as_int :: "environment \<Rightarrow> pyval \<Rightarrow> int option" where
  "as_int env (Scalar SNone) = None"
| "as_int env (Scalar (SInt i)) = Some i"
| "as_int env (Scalar (SBool b)) = Some (if b then 1 else 0)"
| "as_int env (Scalar (SStr s)) = int_of_str env s"
| "as_int env (Scalar (SFloat r)) = int_of_float env r"
| "as_int env (PList xs) = None"
| "as_int env (PTuple xs) = None"
| "as_int env (PDict d) = None"

definition normalize_stars ::
  "environment \<Rightarrow> pydict \<Rightarrow> error + (int option \<times> int option \<times> int option \<times> int option)" where
  "normalize_stars env exiftool_row =
     (let xr = as_int env (get_or_none exiftool_row ''Rating'');
          mr = as_int env (get_or_none exiftool_row ''MicrosoftPhoto:Rating'');
          mp = as_int env (get_or_none exiftool_row ''MicrosoftPhoto:RatingPercent'')
      in case xr of
           Some v \<Rightarrow> Inr (Some (max 0 (min 5 v)), xr, mr, mp)
         | None \<Rightarrow>
             (case mr of
                Some v \<Rightarrow> Inr (Some (max 0 (min 5 v)), xr, mr, mp)
              | None \<Rightarrow>
                  (case stars_from_percent_opt mp of
                     Inl e \<Rightarrow> Inl e
                   | Inr s \<Rightarrow> Inr (s, xr, mr, mp))))"

fun add_rating_record ::
  "environment \<Rightarrow> pydict \<Rightarrow> error + RatingRecord list \<Rightarrow> error + RatingRecord list" where
  "add_rating_record env row (Inl e) = Inl e"
| "add_rating_record env row (Inr records) =
     (let src = get_or_none row ''SourceFile''
      in if \<not> py_truthy src then Inr records
         else (case normalize_stars env row of
                 Inl e \<Rightarrow> Inl e
               | Inr (s, xr, mr, mp) \<Rightarrow>
                   (case src of
                      Scalar (SStr p) \<Rightarrow>
                        Inr (records @ [\<lparr>path = p, stars = s, xmp_rating = xr, ms_rating = mr,
                                          ms_rating_percent = mp\<rparr>])
                    | _ \<Rightarrow> Inl TypeError)))"

definition read_ratings_with_exiftool :: "environment \<Rightarrow> string list \<Rightarrow> error + RatingRecord list" where
  "read_ratings_with_exiftool env files =
     (if files = [] then Inr []
      else if \<not> exiftool_in_path env then Inl RuntimeError
      else (case exiftool_json env files of
              Inl e \<Rightarrow> Inl e
            | Inr rows \<Rightarrow> fold (add_rating_record env) rows (Inr [])))"

text \<open>
  \<^verbatim>\<open>filter_images_by_rating\<close> (lines 176-243). \<open>index_by_path\<close> builds \<^verbatim>\<open>by_path\<close>
  (lines 214-218); \<open>star_values\<close> is the list of line 225; \<open>at_least\<close> is the test of
  line 229.
\<close>

definition unrated_record :: "string \<Rightarrow> RatingRecord" where
  "unrated_record f =
     \<lparr>path = f, stars = None, xmp_rating = None, ms_rating = None, ms_rating_percent = None\<rparr>"

definition index_by_path :: "RatingRecord list \<Rightarrow> string list \<Rightarrow> (string \<times> RatingRecord) list" where
  "index_by_path records files =
     fold (\<lambda>f d. if f \<notin> set (dict_keys d) then dict_set d f (unrated_record f) else d) files
       (fold (\<lambda>r d. dict_set d (path r) r) records [])"

definition star_values :: "RatingRecord list \<Rightarrow> int list" where
  "star_values rs = List.map_filter stars rs"

definition at_least :: "int \<Rightarrow> RatingRecord \<Rightarrow> bool" where
  "at_least cutoff r = (case stars r of None \<Rightarrow> False | Some s \<Rightarrow> s \<ge> cutoff)"

definition default_exts :: "string list" where
  "default_exts = [''jpg'', ''jpeg'', ''tif'', ''tiff'', ''png'', ''heic'', ''cr2'', ''nef'', ''arw'', ''dng'']"

definition effective_extensions :: "string list option \<Rightarrow> string list" where
  "effective_extensions extensions =
     (case extensions of None \<Rightarrow> default_exts
      | Some e \<Rightarrow> if e \<noteq> [] then e else default_exts)"

definition filter_images_by_rating ::
  "environment \<Rightarrow> real \<Rightarrow> bool \<Rightarrow> bool \<Rightarrow> string list option \<Rightarrow> error + FilterResult" where
  "filter_images_by_rating env percentile include_unrated_in_result recursive extensions =
     (let exts = effective_extensions extensions
      in case collect_files env recursive (Some exts) of
           Inl e \<Rightarrow> Inl e
         | Inr files \<Rightarrow>
             if files = [] then
               Inr \<lparr>selected = [], cutoff_stars = None, rated = [], unrated = [],
                    stats = [(''total_scanned'', 0), (''rated'', 0), (''unrated'', 0), (''selected'', 0)]\<rparr>
             else
               (case read_ratings_with_exiftool env files of
                  Inl e \<Rightarrow> Inl e
                | Inr records \<Rightarrow>
                    let by_path = index_by_path records files;
                        rated' = filter (\<lambda>r. stars r \<noteq> None) (dict_values by_path);
                        unrated' = filter (\<lambda>r. stars r = None) (dict_values by_path)
                    in (case (if rated' \<noteq> []
                              then map_sum id Some (percentile_nearest_rank (star_values rated') percentile)
                              else Inr None) of
                          Inl e \<Rightarrow> Inl e
                        | Inr cutoff \<Rightarrow>
                            let selected0 =
                                  (case cutoff of None \<Rightarrow> []
                                   | Some c \<Rightarrow> map path (filter (at_least c) rated'))
                                  @ (if include_unrated_in_result then map path unrated' else []);
                                selected' = sort_key py_lower (set_order env selected0)
                            in Inr \<lparr>selected = selected',
                                    cutoff_stars = cutoff,
                                    rated = sort_key (\<lambda>r. py_lower (path r)) rated',
                                    unrated = sort_key (\<lambda>r. py_lower (path r)) unrated',
                                    stats = [(''total_scanned'', int (length files)),
                                             (''rated'', int (length rated')),
                                             (''unrated'', int (length unrated')),
                                             (''selected'', int (length selected'))]\<rparr>)))"


section \<open>Example inputs\<close>


definition aug1 :: pydict where
  "aug1 = [(''title'', PStr ''Sunset''), (''begin'', PStr ''2021:10:12 18:03:11''),
           (''number'', PFloat ''3.217'')]"

definition aug2 :: pydict where
  "aug2 = [(''title'', PStr ''Library Lawn''), (''n_odd'', PStr ''Nashville, TN'')]"

definition template_csv :: input_csv where
  "template_csv =
     \<lparr>ic_exists = True, ic_size = 16, ic_fieldnames = Some [''title'', ''begin''], ic_rows = []\<rparr>"

definition manifest_csv :: input_csv where
  "manifest_csv =
     \<lparr>ic_exists = True, ic_size = 120,
      ic_fieldnames = Some [''title'', ''begin'', ''number'', ''n_odd''], ic_rows = []\<rparr>"

definition missing_csv :: input_csv where
  "missing_csv = \<lparr>ic_exists = False, ic_size = 0, ic_fieldnames = None, ic_rows = []\<rparr>"


definition example_condensed :: pydict where
  "example_condensed =
     [(''title'', PStr ''Sunset over the lawn''),
      (''begin'', PStr ''2021:10:12 18:03:11''),
      (''people_agent_header_1'', PNone),
      (''people_agent_header_2'', PStr ''Alice Bob Carol''),
      (''subject_1_term'', PNone),
      (''n_odd'', PStr ''  ''),
      (''n_abstract'', PNone)]"

definition example_augmented :: pydict where
  "example_augmented =
     [(''title'', PStr ''Sunset over the lawn''),
      (''begin'', PStr ''2021:10:12 18:03:11''),
      (''people_agent_header_1'', PNone),
      (''people_agent_header_2'', PStr ''Alice Bob Carol''),
      (''subject_1_term'', PNone),
      (''n_odd'', PStr ''  ''),
      (''n_abstract'', PNone),
      (''hierarchy'', PInt 2),
      (''number'', PFloat ''3.217''),
      (''extent_type'', PStr ''MB''),
      (''restrictions_flag'', PStr ''Yes''),
      (''processing_note'', PStr
         ''This picture was held in VandyVision, the digital asset management system called PhotoShelter.''),
      (''portion'', PStr ''1''),
      (''type_2'', PStr ''Item''),
      (''p_acqinfo'', PStr ''Yes''),
      (''n_acqinfo'', PStr ''PhotoShelter https://www.photoshelter.com''),
      (''dates_label'', PStr ''creation''),
      (''date_type'', PStr ''single''),
      (''people_agent_role_2'', PStr ''subject''),
      (''people_agent_relator_2'', PStr ''associated name'')]"


definition empty_env :: environment where
  "empty_env =
     \<lparr>is_dir = True,
      rglob = [(''in/notes.txt'', True), (''in/sub'', False), (''in/sub/readme.md'', True)],
      iterdir = [(''in/notes.txt'', True), (''in/sub'', False)],
      exiftool_in_path = False,
      exiftool_json = (\<lambda>files. Inl OSError),
      int_of_str = (\<lambda>s. None),
      int_of_float = (\<lambda>r. None),
      set_order = remdups\<rparr>"


section \<open>Properties of the percent-to-stars mapping\<close>


lemma py_min_key_range5:
  "py_min_key key (py_range (length [a, b, c, d, e])) = Inr (py_min_from key 0 [1, 2, 3, 4])"
  by (simp add: py_min_key_def py_range_def upt_conv_Cons)

text \<open>The mapping is a step function with steps after 0, 13, 37, 62 and 87.\<close>

lemma stars_from_percent_steps:
  "stars_from_percent p =
     Inr (if p \<le> 0 then 0 else if p \<le> 13 then 1 else if p \<le> 37 then 2
          else if p \<le> 62 then 3 else if p \<le> 87 then 4 else 5)"
proof -
  consider "p \<le> 0" | "0 < p" "p \<le> 13" | "13 < p" "p \<le> 37" | "37 < p" "p \<le> 62"
    | "62 < p" "p \<le> 87" | "87 < p" "p < 99" | "99 \<le> p"
    by linarith
  then show ?thesis
  proof cases
    case 1
    then show ?thesis by (simp add: stars_from_percent_def)
  next
    case 2
    then show ?thesis
      unfolding stars_from_percent_def Let_def py_min_key_range5
      by (auto simp add: cut_distance_def py_index_def abs_if)
  next
    case 3
    then show ?thesis
      unfolding stars_from_percent_def Let_def py_min_key_range5
      by (auto simp add: cut_distance_def py_index_def abs_if)
  next
    case 4
    then show ?thesis
      unfolding stars_from_percent_def Let_def py_min_key_range5
      by (auto simp add: cut_distance_def py_index_def abs_if)
  next
    case 5
    then show ?thesis
      unfolding stars_from_percent_def Let_def py_min_key_range5
      by (auto simp add: cut_distance_def py_index_def abs_if)
  next
    case 6
    then show ?thesis
      unfolding stars_from_percent_def Let_def py_min_key_range5
      by (auto simp add: cut_distance_def py_index_def abs_if)
  next
    case 7
    then show ?thesis by (simp add: stars_from_percent_def)
  qed
qed

lemma stars_from_percent_opt_Some:
  "stars_from_percent_opt (Some p) = map_sum id Some (stars_from_percent p)"
  by (simp add: stars_from_percent_opt_def stars_from_percent_def Let_def split: sum.splits)

lemma less5_cases: "(\<forall>j<5. P (j::nat)) \<longleftrightarrow> P 0 \<and> P 1 \<and> P 2 \<and> P 3 \<and> P 4"
proof
  assume "\<forall>j<5. P j"
  then show "P 0 \<and> P 1 \<and> P 2 \<and> P 3 \<and> P 4" by simp
next
  assume a: "P 0 \<and> P 1 \<and> P 2 \<and> P 3 \<and> P 4"
  show "\<forall>j<5. P j"
  proof (intro allI impI)
    fix j :: nat assume "j < 5"
    then consider "j = 0" | "j = 1" | "j = 2" | "j = 3" | "j = 4" by linarith
    then show "P j" using a by cases auto
  qed
qed

lemma nearest_cut:
  assumes "0 < (p::int)" "p < 99"
  shows "\<exists>i<5. (if p \<le> 13 then 1 else if p \<le> 37 then 2 else if p \<le> 62 then 3
                 else if p \<le> 87 then 4 else 5) = [1, 2, 3, 4, 5 :: int] ! i
           \<and> (\<forall>j<5. \<bar>[1, 25, 50, 75, 99] ! i - p\<bar> \<le> \<bar>[1, 25, 50, 75, 99] ! j - p\<bar>)
           \<and> (\<forall>j<i. \<bar>[1, 25, 50, 75, 99] ! i - p\<bar> < \<bar>[1, 25, 50, 75, 99] ! j - p\<bar>)"
proof -
  consider "p \<le> 13" | "13 < p" "p \<le> 37" | "37 < p" "p \<le> 62"
    | "62 < p" "p \<le> 87" | "87 < p"
    by linarith
  then show ?thesis
  proof cases
    case 1
    then show ?thesis using assms by (intro exI [of _ 0]) (auto simp add: less5_cases abs_if)
  next
    case 2
    then show ?thesis using assms by (intro exI [of _ 1]) (auto simp add: less5_cases abs_if)
  next
    case 3
    then show ?thesis using assms
      by (intro exI [of _ 2]) (auto simp add: less5_cases less_Suc_eq eval_nat_numeral abs_if)
  next
    case 4
    then show ?thesis using assms
      by (intro exI [of _ 3]) (auto simp add: less5_cases less_Suc_eq eval_nat_numeral abs_if)
  next
    case 5
    then show ?thesis using assms
      by (intro exI [of _ 4]) (auto simp add: less5_cases less_Suc_eq eval_nat_numeral abs_if)
  qed
qed

text \<open>
  Claim C3. For every integer percent \<open>p\<close> both versions of the mapping return the same
  star value \<open>s\<close>, it is one of 0..5, it is 0 for \<open>p \<le> 0\<close> and 5 for \<open>p \<ge> 99\<close>, the
  mapping is monotonically non-decreasing, and for \<open>0 < p < 99\<close> it is the star value of
  a cut of \<open>[1, 25, 50, 75, 99]\<close> at least absolute distance from \<open>p\<close>, the lowest such
  index (every cut before it is strictly farther).
\<close>

theorem stars_from_percent_spec:
  "\<exists>s. stars_from_percent p = Inr s
      \<and> stars_from_percent_opt (Some p) = Inr (Some s)
      \<and> s \<in> {0, 1, 2, 3, 4, 5}
      \<and> (p \<le> 0 \<longrightarrow> s = 0)
      \<and> (99 \<le> p \<longrightarrow> s = 5)
      \<and> (\<forall>p'. p \<le> p' \<longrightarrow> (\<exists>s'. stars_from_percent p' = Inr s' \<and> s \<le> s'))
      \<and> (0 < p \<and> p < 99 \<longrightarrow>
           (\<exists>i<5. s = [1, 2, 3, 4, 5] ! i
              \<and> (\<forall>j<5. \<bar>[1, 25, 50, 75, 99] ! i - p\<bar> \<le> \<bar>[1, 25, 50, 75, 99] ! j - p\<bar>)
              \<and> (\<forall>j<i. \<bar>[1, 25, 50, 75, 99] ! i - p\<bar> < \<bar>[1, 25, 50, 75, 99] ! j - p\<bar>)))"
proof -
  define f :: "int \<Rightarrow> int" where
    "f x = (if x \<le> 0 then 0 else if x \<le> 13 then 1 else if x \<le> 37 then 2
            else if x \<le> 62 then 3 else if x \<le> 87 then 4 else 5)" for x
  have run: "stars_from_percent x = Inr (f x)" for x
    unfolding f_def by (rule stars_from_percent_steps)
  have opt: "stars_from_percent_opt (Some p) = Inr (Some (f p))"
    by (simp add: stars_from_percent_opt_Some run)
  have rng: "f p \<in> {0, 1, 2, 3, 4, 5}" by (simp add: f_def)
  have lo: "p \<le> 0 \<longrightarrow> f p = 0" by (simp add: f_def)
  have hi: "99 \<le> p \<longrightarrow> f p = 5" by (simp add: f_def)
  have mono: "f p \<le> f p'" if "p \<le> p'" for p'
    using that by (simp add: f_def)
  have mono': "\<forall>p'. p \<le> p' \<longrightarrow> (\<exists>s'. stars_from_percent p' = Inr s' \<and> f p \<le> s')"
    using mono run by blast
  have near: "0 < p \<and> p < 99 \<longrightarrow>
           (\<exists>i<5. f p = [1, 2, 3, 4, 5] ! i
              \<and> (\<forall>j<5. \<bar>[1, 25, 50, 75, 99] ! i - p\<bar> \<le> \<bar>[1, 25, 50, 75, 99] ! j - p\<bar>)
              \<and> (\<forall>j<i. \<bar>[1, 25, 50, 75, 99] ! i - p\<bar> < \<bar>[1, 25, 50, 75, 99] ! j - p\<bar>))"
  proof
    assume a: "0 < p \<and> p < 99"
    then have "f p = (if p \<le> 13 then 1 else if p \<le> 37 then 2 else if p \<le> 62 then 3
                 else if p \<le> 87 then 4 else 5)" by (simp add: f_def)
    then show "\<exists>i<5. f p = [1, 2, 3, 4, 5] ! i
              \<and> (\<forall>j<5. \<bar>[1, 25, 50, 75, 99] ! i - p\<bar> \<le> \<bar>[1, 25, 50, 75, 99] ! j - p\<bar>)
              \<and> (\<forall>j<i. \<bar>[1, 25, 50, 75, 99] ! i - p\<bar> < \<bar>[1, 25, 50, 75, 99] ! j - p\<bar>)"
      using nearest_cut [of p] a by simp
  qed
  show ?thesis
    using run [of p] opt rng lo hi mono' near by (intro exI [of _ "f p"]) blast
qed

theorem stars_from_percent_spec_witness:
  "stars_from_percent 13 = Inr 1 \<and> stars_from_percent_opt (Some 13) = Inr (Some 1)
     \<and> (0 < (13::int) \<and> (13::int) < 99)
     \<and> (\<exists>i<5. (1::int) = [1, 2, 3, 4, 5] ! i
           \<and> (\<forall>j<5. \<bar>[1, 25, 50, 75, 99] ! i - 13\<bar> \<le> \<bar>[1, 25, 50, 75, 99] ! j - (13::int)\<bar>)
           \<and> (\<forall>j<i. \<bar>[1, 25, 50, 75, 99] ! i - 13\<bar> < \<bar>[1, 25, 50, 75, 99] ! j - (13::int)\<bar>))"
proof -
  have s: "stars_from_percent 13 = Inr 1" by (simp add: stars_from_percent_steps)
  show ?thesis using stars_from_percent_spec [of 13] unfolding s by auto
qed

section \<open>Properties of the nearest-rank percentile\<close>








section \<open>Properties of the CSV writer\<close>

lemma first_seen_snoc:
  "first_seen (xs @ [x]) = first_seen xs @ (if x \<in> set xs then [] else [x])"
  by (simp add: first_seen_def)

lemma set_first_seen [simp]: "set (first_seen xs) = set xs"
  by (simp add: first_seen_def)

lemma distinct_first_seen [simp]: "distinct (first_seen xs)"
  by (simp add: first_seen_def)

lemma fold_add_unseen:
  "fold add_unseen ks (hs, set hs) =
     (hs @ filter (\<lambda>k. k \<notin> set hs) (first_seen ks), set hs \<union> set ks)"
proof (induction ks rule: rev_induct)
  case Nil
  then show ?case by (simp add: first_seen_def)
next
  case (snoc k ks)
  then show ?case by (auto simp add: first_seen_snoc)
qed

lemma fold_add_record_keys:
  "fold add_record_keys rs st = fold add_unseen (concat (map dict_keys rs)) st"
  by (induction rs arbitrary: st) (simp_all add: add_record_keys_def)

lemma compute_headers_eq:
  "compute_headers H R add =
     H @ (if add then filter (\<lambda>k. k \<notin> set H) (first_seen (concat (map dict_keys R))) else [])"
  by (simp add: compute_headers_def fold_add_record_keys fold_add_unseen)

lemma infer_headers_eq:
  "fst (fold add_record_keys R ([], {})) = first_seen (concat (map dict_keys R))"
  using fold_add_unseen [of "concat (map dict_keys R)" "[]"]
  by (simp add: fold_add_record_keys)

lemma fill_cell_headers:
  assumes "\<not> add \<or> fst ` set rec \<subseteq> set hs"
  shows "fst (fold (fill_cell add) rec (hs, row)) = hs"
  using assms by (induction rec arbitrary: row) auto

lemma build_row_headers:
  assumes "\<not> add \<or> set (concat (map dict_keys R)) \<subseteq> set hs"
  shows "fst (fold (build_row add) R (hs, rows)) = hs"
  using assms
proof (induction R arbitrary: rows)
  case Nil
  then show ?case by simp
next
  case (Cons r R)
  have "\<not> add \<or> fst ` set r \<subseteq> set hs" using Cons.prems by (auto simp add: dict_keys_def)
  then have "fst (fold (fill_cell add) r (hs, blank_row hs)) = hs" by (rule fill_cell_headers)
  then obtain row where "fold (fill_cell add) r (hs, blank_row hs) = (hs, row)"
    by (metis prod.collapse)
  then show ?case using Cons by simp
qed

lemma append_records_fieldnames:
  "out_fieldnames (append_records_to_csv f R add keep) =
     final_headers (snd (read_existing_csv f)) R add"
proof -
  obtain rows H where r: "read_existing_csv f = (rows, H)" by (cases "read_existing_csv f")
  define h1 where "h1 = final_headers H R add"
  have cover: "\<not> add \<or> set (concat (map dict_keys R)) \<subseteq> set h1"
    by (auto simp add: h1_def final_headers_def compute_headers_eq)
  obtain nr where b: "fold (build_row add) R (h1, []) = (h1, nr)"
    using build_row_headers [OF cover, of "[]"] by (metis prod.collapse)
  have "out_fieldnames (append_records_to_csv f R add keep) = fst (fold (build_row add) R (h1, []))"
    unfolding append_records_to_csv_def r h1_def final_headers_def
    by (simp add: Let_def infer_headers_eq split: prod.splits)
  then show ?thesis using b by (simp add: h1_def r)
qed

lemma final_headers_add: "final_headers H R True = compute_headers H R True"
  by (auto simp add: final_headers_def compute_headers_eq)

text \<open>
  Claim C4. For every existing header list \<open>H\<close> and record list \<open>R\<close>, the header list
  \<open>compute_headers\<close> returns is \<open>H\<close>, in its order, followed (when missing columns are
  added) by the keys of \<open>R\<close> that are not in \<open>H\<close>, each once, in first-seen order. Hence
  a run of \<open>append_records_to_csv\<close> that keeps rows and adds columns writes the header
  row \<open>H @ ext\<close>, and a second run with the same records on any input whose header row is
  that output writes the very same header row: no column is dropped or moved.
\<close>

theorem compute_headers_stable:
  "compute_headers H R add =
      H @ (if add then filter (\<lambda>k. k \<notin> set H) (first_seen (concat (map dict_keys R))) else [])
   \<and> (snd (read_existing_csv f) = H \<longrightarrow>
        (\<exists>ext. out_fieldnames (append_records_to_csv f R True True) = H @ ext
            \<and> (\<forall>f2. snd (read_existing_csv f2) = H @ ext \<longrightarrow>
                  out_fieldnames (append_records_to_csv f2 R True True) = H @ ext)))"
proof (intro conjI impI)
  show "compute_headers H R add =
      H @ (if add then filter (\<lambda>k. k \<notin> set H) (first_seen (concat (map dict_keys R))) else [])"
    by (rule compute_headers_eq)
next
  assume f: "snd (read_existing_csv f) = H"
  let ?K = "first_seen (concat (map dict_keys R))"
  let ?ext = "filter (\<lambda>k. k \<notin> set H) ?K"
  have one: "out_fieldnames (append_records_to_csv f R True True) = H @ ?ext"
    by (simp add: append_records_fieldnames f final_headers_add compute_headers_eq)
  have two: "out_fieldnames (append_records_to_csv f2 R True True) = H @ ?ext"
    if "snd (read_existing_csv f2) = H @ ?ext" for f2
  proof -
    have "filter (\<lambda>k. k \<notin> set (H @ ?ext)) ?K = []"
      by (auto simp add: filter_empty_conv)
    then show ?thesis
      by (simp add: append_records_fieldnames that final_headers_add compute_headers_eq)
  qed
  show "\<exists>ext. out_fieldnames (append_records_to_csv f R True True) = H @ ext
            \<and> (\<forall>f2. snd (read_existing_csv f2) = H @ ext \<longrightarrow>
                  out_fieldnames (append_records_to_csv f2 R True True) = H @ ext)"
    using one two by blast
qed

text \<open>
  Claim C10. When the input CSV does not exist or is empty and \<open>add_missing_columns\<close> is
  off, the header row written is still the keys of the records in first-seen order; it is
  non-empty as soon as one record has a key.
\<close>

theorem append_records_infers_headers:
  assumes "\<not> ic_exists f \<or> ic_size f = 0"
  shows "out_fieldnames (append_records_to_csv f R False keep) = first_seen (concat (map dict_keys R))
       \<and> ((\<exists>r \<in> set R. r \<noteq> []) \<longrightarrow> out_fieldnames (append_records_to_csv f R False keep) \<noteq> [])"
proof -
  have "snd (read_existing_csv f) = []" using assms by (auto simp add: read_existing_csv_def)
  then have eq: "out_fieldnames (append_records_to_csv f R False keep) = first_seen (concat (map dict_keys R))"
    by (simp add: append_records_fieldnames final_headers_def compute_headers_eq)
  have "first_seen (concat (map dict_keys R)) \<noteq> []" if "\<exists>r \<in> set R. r \<noteq> []"
  proof -
    from that obtain r where r: "r \<in> set R" "r \<noteq> []" by blast
    have "dict_keys r \<noteq> []" using r(2) by (simp add: dict_keys_def)
    then obtain k where "k \<in> set (dict_keys r)"
      by (meson last_in_set)
    then have "k \<in> set (first_seen (concat (map dict_keys R)))" using r by auto
    then show ?thesis by (metis empty_iff empty_set)
  qed
  then show ?thesis using eq by simp
qed

lemma scalars_of_map_Scalar [simp]: "scalars_of (map Scalar ss) = ss"
  by (induction ss) simp_all

lemma all_scalar_map_Scalar [simp]: "list_all is_scalar (map Scalar ss)"
  by (induction ss) simp_all

text \<open>
  Claim C6, as amended. \<open>None\<close> becomes the empty string; a list or a tuple whose elements
  are all scalars becomes their \<open>"; "\<close>-joined strings (\<open>None\<close> as the empty string); a
  list or a tuple with a non-scalar element becomes its JSON text; a dict always becomes
  its JSON text, also when all its values are scalars; any other scalar becomes its plain
  string form.
\<close>

theorem normalize_cell_spec:
  "normalize_cell PNone = []
   \<and> normalize_cell (PList (map Scalar ss)) =
       py_join ''; '' (map (\<lambda>x. if x = SNone then [] else py_str x) ss)
   \<and> normalize_cell (PTuple (map Scalar ss)) =
       py_join ''; '' (map (\<lambda>x. if x = SNone then [] else py_str x) ss)
   \<and> ((\<exists>v \<in> set xs. \<not> is_scalar v) \<longrightarrow>
         normalize_cell (PList xs) = json_dumps (PList xs)
       \<and> normalize_cell (PTuple xs) = json_dumps (PTuple xs))
   \<and> normalize_cell (PDict d) = json_dumps (PDict d)
   \<and> (x \<noteq> SNone \<longrightarrow> normalize_cell (Scalar x) = py_str x)"
  by (auto simp add: joined_cell_def list_all_iff)

theorem compute_headers_stable_witness:
  "compute_headers [''title'', ''begin''] [aug1, aug2] True
      = [''title'', ''begin'', ''number'', ''n_odd'']
   \<and> snd (read_existing_csv template_csv) = [''title'', ''begin'']
   \<and> out_fieldnames (append_records_to_csv template_csv [aug1, aug2] True True)
      = [''title'', ''begin'', ''number'', ''n_odd'']
   \<and> out_fieldnames (append_records_to_csv manifest_csv [aug1, aug2] True True)
      = [''title'', ''begin'', ''number'', ''n_odd'']"
proof -
  have r1: "snd (read_existing_csv template_csv) = [''title'', ''begin'']"
    by (simp add: read_existing_csv_def template_csv_def)
  have r2: "snd (read_existing_csv manifest_csv) = [''title'', ''begin''] @ [''number'', ''n_odd'']"
    by (simp add: read_existing_csv_def manifest_csv_def)
  have o1: "out_fieldnames (append_records_to_csv template_csv [aug1, aug2] True True)
      = [''title'', ''begin''] @ [''number'', ''n_odd'']"
    by code_simp
  have k: "filter (\<lambda>k. k \<notin> set [''title'', ''begin''])
             (first_seen (concat (map dict_keys [aug1, aug2]))) = [''number'', ''n_odd'']"
    by (simp add: first_seen_def dict_keys_def aug1_def aug2_def)
  note t = compute_headers_stable [of "[''title'', ''begin'']" "[aug1, aug2]" True template_csv]
  have c: "compute_headers [''title'', ''begin''] [aug1, aug2] True
      = [''title'', ''begin'', ''number'', ''n_odd'']"
    using t k by simp
  from t r1 obtain ext where
    e: "out_fieldnames (append_records_to_csv template_csv [aug1, aug2] True True)
          = [''title'', ''begin''] @ ext"
    and again: "\<forall>f2. snd (read_existing_csv f2) = [''title'', ''begin''] @ ext \<longrightarrow>
          out_fieldnames (append_records_to_csv f2 [aug1, aug2] True True)
            = [''title'', ''begin''] @ ext"
    by blast
  have "ext = [''number'', ''n_odd'']" using e o1 by simp
  then have "out_fieldnames (append_records_to_csv manifest_csv [aug1, aug2] True True)
      = [''title'', ''begin''] @ [''number'', ''n_odd'']"
    using again r2 by blast
  then show ?thesis using c r1 o1 by simp
qed

theorem append_records_infers_headers_witness:
  "\<not> ic_exists missing_csv
   \<and> out_fieldnames (append_records_to_csv missing_csv [aug1, aug2] False True)
       = [''title'', ''begin'', ''number'', ''n_odd'']
   \<and> out_fieldnames (append_records_to_csv missing_csv [aug1, aug2] False True) \<noteq> []"
proof -
  have m: "\<not> ic_exists missing_csv \<or> ic_size missing_csv = 0" by (simp add: missing_csv_def)
  have k: "first_seen (concat (map dict_keys [aug1, aug2])) = [''title'', ''begin'', ''number'', ''n_odd'']"
    by (simp add: first_seen_def dict_keys_def aug1_def aug2_def)
  show ?thesis
    using append_records_infers_headers [OF m, of "[aug1, aug2]" True] k
    by (simp add: missing_csv_def)
qed

theorem normalize_cell_spec_witness:
  "normalize_cell PNone = []
   \<and> normalize_cell (PList [PStr ''a'', PNone, PInt 12, PBool True, PFloat ''3.217''])
       = ''a; ; 12; True; 3.217''
   \<and> normalize_cell (PTuple [PInt 3, PInt 4]) = ''3; 4''
   \<and> normalize_cell (PList [PStr ''a'', PList []])
       = ''['' @ [CHR 0x22] @ ''a'' @ [CHR 0x22] @ '', []]''
   \<and> normalize_cell (PDict [(''a'', PInt 1)]) = ''{'' @ [CHR 0x22] @ ''a'' @ [CHR 0x22] @ '': 1}''
   \<and> normalize_cell (PInt 7) = ''7''"
proof -
  have j1: "py_join ''; '' (map (\<lambda>x. if x = SNone then [] else py_str x)
              [SStr ''a'', SNone, SInt 12, SBool True, SFloat ''3.217'']) = ''a; ; 12; True; 3.217''"
    by code_simp
  have j2: "py_join ''; '' (map (\<lambda>x. if x = SNone then [] else py_str x) [SInt 3, SInt 4]) = ''3; 4''"
    by code_simp
  have j3: "json_dumps (PList [PStr ''a'', PList []]) = ''['' @ [CHR 0x22] @ ''a'' @ [CHR 0x22] @ '', []]''"
    by code_simp
  have j4: "json_dumps (PDict [(''a'', PInt 1)]) = ''{'' @ [CHR 0x22] @ ''a'' @ [CHR 0x22] @ '': 1}''"
    by code_simp
  have j5: "py_str (SInt 7) = ''7''" by code_simp
  have ns: "\<exists>v \<in> set [PStr ''a'', PList []]. \<not> is_scalar v" by simp
  note a = normalize_cell_spec [of "[SStr ''a'', SNone, SInt 12, SBool True, SFloat ''3.217'']"
              "[PStr ''a'', PList []]" "[(''a'', PInt 1)]" "SInt 7"]
  note b = normalize_cell_spec [of "[SInt 3, SInt 4]" "[PStr ''a'', PList []]" "[(''a'', PInt 1)]" "SInt 7"]
  have c1: "normalize_cell PNone = []" using a by blast
  have c2: "normalize_cell (PList [PStr ''a'', PNone, PInt 12, PBool True, PFloat ''3.217''])
       = ''a; ; 12; True; 3.217''"
    using a j1 by simp
  have c3: "normalize_cell (PTuple [PInt 3, PInt 4]) = ''3; 4''" using b j2 by simp
  have c4: "normalize_cell (PList [PStr ''a'', PList []])
       = ''['' @ [CHR 0x22] @ ''a'' @ [CHR 0x22] @ '', []]''"
    using a ns j3 by simp
  have c5: "normalize_cell (PDict [(''a'', PInt 1)]) = ''{'' @ [CHR 0x22] @ ''a'' @ [CHR 0x22] @ '': 1}''"
    using a j4 by simp
  have c6: "normalize_cell (PInt 7) = ''7''" using a j5 by simp
  show ?thesis using c1 c2 c3 c4 c5 c6 by blast
qed

text \<open>
  The claim as stated joins every structure of scalars. A dict with the single scalar
  value 1 is written as its JSON text, which is neither the join of its values nor the
  join of its keys.
\<close>

theorem normalize_cell_dict_counterexample:
  "list_all is_scalar (dict_values [(''a'', PInt 1)])
   \<and> normalize_cell (PDict [(''a'', PInt 1)]) = ''{'' @ [CHR 0x22] @ ''a'' @ [CHR 0x22] @ '': 1}''
   \<and> normalize_cell (PDict [(''a'', PInt 1)]) \<noteq> joined_cell (dict_values [(''a'', PInt 1)])
   \<and> normalize_cell (PDict [(''a'', PInt 1)]) \<noteq> py_join ''; '' (dict_keys [(''a'', PInt 1)])"
  by code_simp


section \<open>Properties of the condenser and the augmenter\<close>

lemma dict_get_dict_set:
  "dict_get (dict_set d k v) k' = (if k' = k then Some v else dict_get d k')"
  by (induction d) (auto simp add: dict_get_def)

lemma dict_keys_dict_set:
  "set (dict_keys (dict_set d k v)) = insert k (set (dict_keys d))"
  by (induction d k v rule: dict_set.induct) (auto simp add: dict_keys_def)

lemma dict_get_None_iff: "dict_get d k = None \<longleftrightarrow> k \<notin> set (dict_keys d)"
  by (simp add: dict_get_def dict_keys_def map_of_eq_None_iff)

lemma dict_get_set_items:
  "dict_get (set_items d kvs) k =
     (case map_of (rev kvs) k of Some v \<Rightarrow> Some v | None \<Rightarrow> dict_get d k)"
  unfolding set_items_def
proof (induction kvs arbitrary: d)
  case Nil
  then show ?case by simp
next
  case (Cons kv kvs)
  then show ?case
    by (cases kv) (auto simp add: dict_get_dict_set split: option.splits)
qed

lemma dict_keys_set_items:
  "set (dict_keys (set_items d kvs)) = set (dict_keys d) \<union> fst ` set kvs"
  unfolding set_items_def
  by (induction kvs arbitrary: d) (auto simp add: dict_keys_dict_set)

lemma get_or_none_set_items:
  "k \<notin> fst ` set kvs \<Longrightarrow> get_or_none (set_items d kvs) k = get_or_none d k"
proof -
  assume "k \<notin> fst ` set kvs"
  then have "map_of (rev kvs) k = None" by (simp add: map_of_eq_None_iff)
  then show ?thesis by (simp add: get_or_none_def dict_get_set_items)
qed

lemma get_or_none_dict_set:
  "k \<noteq> k' \<Longrightarrow> get_or_none (dict_set d k' v) k = get_or_none d k"
  by (simp add: get_or_none_def dict_get_dict_set)

lemma get_or_none_set_items_if:
  "k \<notin> fst ` set kvs \<Longrightarrow> get_or_none (set_items_if b d kvs) k = get_or_none d k"
  by (simp add: set_items_if_def get_or_none_set_items)

lemma dict_get_set_items_if:
  "dict_get (set_items_if b d kvs) k =
     (if b then (case map_of (rev kvs) k of Some v \<Rightarrow> Some v | None \<Rightarrow> dict_get d k)
      else dict_get d k)"
  by (simp add: set_items_if_def dict_get_set_items)

lemma condense_metadata_fields:
  "condense_metadata meta = Inr c \<Longrightarrow> dict_keys c = condensed_fields"
  by (auto simp add: condense_metadata_def condensed_fields_def dict_keys_def split: sum.splits)

lemma py_strip_empty_iff: "py_strip s = [] \<longleftrightarrow> (\<forall>ch \<in> set s. py_isspace ch)"
proof
  assume "py_strip s = []"
  then have all: "\<forall>x \<in> set (dropWhile py_isspace s). py_isspace x"
    by (simp add: py_strip_def dropWhile_eq_Nil_conv)
  have "dropWhile py_isspace s = []"
  proof (rule ccontr)
    assume ne: "dropWhile py_isspace s \<noteq> []"
    then have "\<not> py_isspace (hd (dropWhile py_isspace s))" by (rule hd_dropWhile)
    moreover have "hd (dropWhile py_isspace s) \<in> set (dropWhile py_isspace s)"
      using ne by simp
    ultimately show False using all by blast
  qed
  then show "\<forall>ch \<in> set s. py_isspace ch" by (simp add: dropWhile_eq_Nil_conv)
next
  assume "\<forall>ch \<in> set s. py_isspace ch"
  then show "py_strip s = []" by (auto simp add: py_strip_def dest: set_dropWhileD)
qed

lemma non_null_iff:
  "non_null v \<longleftrightarrow>
     v \<noteq> PNone \<and> (\<forall>s. v = PStr s \<longrightarrow> (\<exists>ch \<in> set s. \<not> py_isspace ch))
      \<and> v \<noteq> PList [] \<and> v \<noteq> PTuple [] \<and> v \<noteq> PDict []"
proof (cases v)
  case (Scalar x)
  then show ?thesis by (cases x) (auto simp add: py_strip_empty_iff)
qed auto

lemma augment_result:
  assumes "augment_condensed_metadata size_mb c h = Inr a"
  obtains number where
    "a = set_items_if (non_null (get_or_none c ''subject_1_term''))
          (set_items_if (non_null (get_or_none c ''n_odd''))
          (set_items_if (non_null (get_or_none c ''people_agent_header_2''))
          (set_items_if (non_null (get_or_none c ''people_agent_header_1''))
          (set_items_if (non_null (get_or_none c ''begin''))
            (set_items (set_items (dict_set c ''hierarchy'' h)
                [(''number'', number), (''extent_type'', PStr ''MB'')])
              [(''restrictions_flag'', PStr ''Yes''),
               (''processing_note'', PStr
                  ''This picture was held in VandyVision, the digital asset management system called PhotoShelter.''),
               (''portion'', PStr ''1''),
               (''type_2'', PStr ''Item''),
               (''p_acqinfo'', PStr ''Yes''),
               (''n_acqinfo'', PStr ''PhotoShelter https://www.photoshelter.com'')])
            [(''dates_label'', PStr ''creation''), (''date_type'', PStr ''single'')])
            [(''people_agent_role_1'', PStr ''creator''),
             (''people_agent_relator_1'', PStr ''photographer'')])
            [(''people_agent_role_2'', PStr ''subject''),
             (''people_agent_relator_2'', PStr ''associated name'')])
            [(''p_odd'', PStr ''Yes''), (''l_odd'', PStr ''location'')])
            [(''subject_1_type'', PStr ''topical''), (''subject_1_source'', PStr ''local sources'')]"
  using assms unfolding augment_condensed_metadata_def Let_def
  by (auto simp add: get_or_none_set_items get_or_none_set_items_if get_or_none_dict_set
      split: sum.splits if_splits)


text \<open>
  Claim C8. For every condensed record (a dict with the seven keys that
  \<open>condense_metadata\<close> builds) and every successful run of
  \<open>augment_condensed_metadata\<close>, each pair of descriptor fields is present, with its fixed
  values, when the corresponding condensed field is non-null, and both keys are absent
  otherwise; a value is non-null iff it is not \<open>None\<close>, not an empty or whitespace-only
  string, and not an empty list, tuple or dict.
\<close>

theorem augment_descriptor_groups:
  assumes "dict_keys c = condensed_fields"
    and "augment_condensed_metadata size_mb c h = Inr a"
  shows "group_added a (non_null (get_or_none c ''begin''))
           (''dates_label'', PStr ''creation'') (''date_type'', PStr ''single'')
       \<and> group_added a (non_null (get_or_none c ''people_agent_header_1''))
           (''people_agent_role_1'', PStr ''creator'')
           (''people_agent_relator_1'', PStr ''photographer'')
       \<and> group_added a (non_null (get_or_none c ''people_agent_header_2''))
           (''people_agent_role_2'', PStr ''subject'')
           (''people_agent_relator_2'', PStr ''associated name'')
       \<and> group_added a (non_null (get_or_none c ''n_odd''))
           (''p_odd'', PStr ''Yes'') (''l_odd'', PStr ''location'')
       \<and> group_added a (non_null (get_or_none c ''subject_1_term''))
           (''subject_1_type'', PStr ''topical'') (''subject_1_source'', PStr ''local sources'')
       \<and> (\<forall>v. non_null v \<longleftrightarrow>
              v \<noteq> PNone \<and> (\<forall>s. v = PStr s \<longrightarrow> (\<exists>ch \<in> set s. \<not> py_isspace ch))
              \<and> v \<noteq> PList [] \<and> v \<noteq> PTuple [] \<and> v \<noteq> PDict [])"
proof -
  from assms(2) obtain number where a: "a = set_items_if (non_null (get_or_none c ''subject_1_term''))
          (set_items_if (non_null (get_or_none c ''n_odd''))
          (set_items_if (non_null (get_or_none c ''people_agent_header_2''))
          (set_items_if (non_null (get_or_none c ''people_agent_header_1''))
          (set_items_if (non_null (get_or_none c ''begin''))
            (set_items (set_items (dict_set c ''hierarchy'' h)
                [(''number'', number), (''extent_type'', PStr ''MB'')])
              [(''restrictions_flag'', PStr ''Yes''),
               (''processing_note'', PStr
                  ''This picture was held in VandyVision, the digital asset management system called PhotoShelter.''),
               (''portion'', PStr ''1''),
               (''type_2'', PStr ''Item''),
               (''p_acqinfo'', PStr ''Yes''),
               (''n_acqinfo'', PStr ''PhotoShelter https://www.photoshelter.com'')])
            [(''dates_label'', PStr ''creation''), (''date_type'', PStr ''single'')])
            [(''people_agent_role_1'', PStr ''creator''),
             (''people_agent_relator_1'', PStr ''photographer'')])
            [(''people_agent_role_2'', PStr ''subject''),
             (''people_agent_relator_2'', PStr ''associated name'')])
            [(''p_odd'', PStr ''Yes''), (''l_odd'', PStr ''location'')])
            [(''subject_1_type'', PStr ''topical''), (''subject_1_source'', PStr ''local sources'')]"
    by (rule augment_result)
  have absent: "dict_get c k = None" if "k \<notin> set condensed_fields" for k
    using that assms(1) by (simp add: dict_get_None_iff)
  have c: "dict_get c ''dates_label'' = None" "dict_get c ''date_type'' = None"
    "dict_get c ''people_agent_role_1'' = None" "dict_get c ''people_agent_relator_1'' = None"
    "dict_get c ''people_agent_role_2'' = None" "dict_get c ''people_agent_relator_2'' = None"
    "dict_get c ''p_odd'' = None" "dict_get c ''l_odd'' = None"
    "dict_get c ''subject_1_type'' = None" "dict_get c ''subject_1_source'' = None"
    by (rule absent, simp add: condensed_fields_def)+
  have g1: "group_added a (non_null (get_or_none c ''begin''))
           (''dates_label'', PStr ''creation'') (''date_type'', PStr ''single'')"
    unfolding group_added_def dict_get_None_iff [symmetric] a
    by (simp add: dict_get_set_items_if dict_get_set_items dict_get_dict_set c)
  have g2: "group_added a (non_null (get_or_none c ''people_agent_header_1''))
           (''people_agent_role_1'', PStr ''creator'')
           (''people_agent_relator_1'', PStr ''photographer'')"
    unfolding group_added_def dict_get_None_iff [symmetric] a
    by (simp add: dict_get_set_items_if dict_get_set_items dict_get_dict_set c)
  have g3: "group_added a (non_null (get_or_none c ''people_agent_header_2''))
           (''people_agent_role_2'', PStr ''subject'')
           (''people_agent_relator_2'', PStr ''associated name'')"
    unfolding group_added_def dict_get_None_iff [symmetric] a
    by (simp add: dict_get_set_items_if dict_get_set_items dict_get_dict_set c)
  have g4: "group_added a (non_null (get_or_none c ''n_odd''))
           (''p_odd'', PStr ''Yes'') (''l_odd'', PStr ''location'')"
    unfolding group_added_def dict_get_None_iff [symmetric] a
    by (simp add: dict_get_set_items_if dict_get_set_items dict_get_dict_set c)
  have g5: "group_added a (non_null (get_or_none c ''subject_1_term''))
           (''subject_1_type'', PStr ''topical'') (''subject_1_source'', PStr ''local sources'')"
    unfolding group_added_def dict_get_None_iff [symmetric] a
    by (simp add: dict_get_set_items_if dict_get_set_items dict_get_dict_set c)
  show ?thesis by (intro conjI allI) (fact g1 g2 g3 g4 g5 non_null_iff)+
qed





theorem augment_descriptor_groups_witness:
  "dict_keys example_condensed = condensed_fields
   \<and> augment_condensed_metadata (Inr (PFloat ''3.217'')) example_condensed (PInt 2)
        = Inr example_augmented
   \<and> non_null (get_or_none example_condensed ''begin'')
   \<and> dict_get example_augmented ''dates_label'' = Some (PStr ''creation'')
   \<and> dict_get example_augmented ''date_type'' = Some (PStr ''single'')
   \<and> \<not> non_null (get_or_none example_condensed ''n_odd'')
   \<and> ''p_odd'' \<notin> set (dict_keys example_augmented)
   \<and> ''l_odd'' \<notin> set (dict_keys example_augmented)"
proof -
  have k: "dict_keys example_condensed = condensed_fields" by code_simp
  have r: "augment_condensed_metadata (Inr (PFloat ''3.217'')) example_condensed (PInt 2)
        = Inr example_augmented"
    by code_simp
  have n1: "non_null (get_or_none example_condensed ''begin'')" by code_simp
  have n2: "\<not> non_null (get_or_none example_condensed ''n_odd'')" by code_simp
  note t = augment_descriptor_groups [OF k r]
  have g1: "group_added example_augmented True
           (''dates_label'', PStr ''creation'') (''date_type'', PStr ''single'')"
    using t n1 by simp
  have g4: "group_added example_augmented False
           (''p_odd'', PStr ''Yes'') (''l_odd'', PStr ''location'')"
    using t n2 by simp
  show ?thesis using k r n1 n2 g1 g4 by (simp add: group_added_def)
qed




text \<open>
  Claim C5. The claim says that every value shape is handled without an error, an empty or
  whitespace-only title included. In the source the loop
  \<^verbatim>\<open>while out["title"][-1] == " "\<close> reads the last character of a title that is empty, or
  has become empty after its trailing spaces were cut, and raises IndexError.
\<close>

theorem condense_metadata_blank_title_raises:
  "condense_metadata [(''ImageDescription'', PStr [])] = Inl IndexError
   \<and> condense_metadata [(''ImageDescription'', PStr ''   '')] = Inl IndexError
   \<and> condense_metadata [(''XMP-dc:Description'', PStr '' ''), (''CreateDate'', PStr ''2021:10:12'')]
        = Inl IndexError"
  by code_simp

section \<open>Properties of the collection filter\<close>

lemma default_exts_nonempty: "effective_extensions exts \<noteq> []"
  by (simp add: effective_extensions_def default_exts_def split: option.splits)

text \<open>
  Claim C9. When the root is not a directory, \<open>filter_images_by_rating\<close> raises
  ValueError. When it is a directory and no entry of the listing is a file with an allowed
  extension, the call returns the empty result: no selected, rated or unrated file, no
  cutoff, every count zero.
\<close>

theorem filter_images_by_rating_no_files:
  "(\<not> is_dir env \<longrightarrow>
       filter_images_by_rating env q incl recursive exts = Inl ValueError)
   \<and> (is_dir env
        \<and> (\<forall>e \<in> set (if recursive then rglob env else iterdir env).
              \<not> (snd e \<and> extension_allowed (effective_extensions exts) (fst e))) \<longrightarrow>
       filter_images_by_rating env q incl recursive exts =
         Inr \<lparr>selected = [], cutoff_stars = None, rated = [], unrated = [],
              stats = [(''total_scanned'', 0), (''rated'', 0), (''unrated'', 0), (''selected'', 0)]\<rparr>)"
proof (intro conjI impI)
  assume "\<not> is_dir env"
  then show "filter_images_by_rating env q incl recursive exts = Inl ValueError"
    by (simp add: filter_images_by_rating_def collect_files_def)
next
  assume a: "is_dir env
        \<and> (\<forall>e \<in> set (if recursive then rglob env else iterdir env).
              \<not> (snd e \<and> extension_allowed (effective_extensions exts) (fst e)))"
  let ?it = "if recursive then rglob env else iterdir env"
  have "filter (extension_allowed (effective_extensions exts)) (map fst (filter snd ?it)) = []"
    using a by (auto simp add: filter_empty_conv)
  then have "collect_files env recursive (Some (effective_extensions exts)) = Inr []"
    using a default_exts_nonempty [of exts] by (simp add: collect_files_def Let_def)
  then show "filter_images_by_rating env q incl recursive exts =
         Inr \<lparr>selected = [], cutoff_stars = None, rated = [], unrated = [],
              stats = [(''total_scanned'', 0), (''rated'', 0), (''unrated'', 0), (''selected'', 0)]\<rparr>"
    by (simp add: filter_images_by_rating_def)
qed


theorem filter_images_by_rating_no_files_witness:
  "\<not> is_dir (empty_env\<lparr>is_dir := False\<rparr>)
   \<and> filter_images_by_rating (empty_env\<lparr>is_dir := False\<rparr>) 0.5 True True None = Inl ValueError
   \<and> is_dir empty_env
   \<and> filter_images_by_rating empty_env 0.5 True True None =
         Inr \<lparr>selected = [], cutoff_stars = None, rated = [], unrated = [],
              stats = [(''total_scanned'', 0), (''rated'', 0), (''unrated'', 0), (''selected'', 0)]\<rparr>"
proof -
  have d: "\<not> is_dir (empty_env\<lparr>is_dir := False\<rparr>)" by simp
  have e: "is_dir empty_env
        \<and> (\<forall>e \<in> set (if True then rglob empty_env else iterdir empty_env).
              \<not> (snd e \<and> extension_allowed (effective_extensions None) (fst e)))"
    by code_simp
  show ?thesis
    using filter_images_by_rating_no_files [of "empty_env\<lparr>is_dir := False\<rparr>" "0.5" True True None]
      filter_images_by_rating_no_files [of empty_env "0.5" True True None] d e
    by blast
qed






end
